theory Spec2Isabelle
  imports Main "HOL-Library.Sublist" "HOL-Library.Char_ord" "HOL-Library.List_Lexorder"
begin

section \<open>Text primitives of the Python sources\<close>

text \<open>
  A query is a Python \<^verbatim>\<open>str\<close>. It is modelled as a \<^typ>\<open>string\<close> over the 8-bit characters
  of HOL, read as the code points 0 to 255 (Latin-1). On these, \<^verbatim>\<open>str.lower()\<close> maps
  \<^verbatim>\<open>A..Z\<close> to \<^verbatim>\<open>a..z\<close> and the capitals 192 to 222 (without the sign 215) to the
  letters 32 above them; the classes \<^verbatim>\<open>\s\<close>, \<^verbatim>\<open>\d\<close> and \<^verbatim>\<open>\w\<close> are those of the \<^verbatim>\<open>re\<close>
  module on text patterns, cut down to these code points.
\<close>

definition lower_char :: "char \<Rightarrow> char" where
  "lower_char c =
     (let n = (of_char c :: nat)
      in if (65 \<le> n \<and> n \<le> 90) \<or> (192 \<le> n \<and> n \<le> 222 \<and> n \<noteq> 215) then char_of (n + 32) else c)"

definition lower :: "string \<Rightarrow> string" where
  "lower s = map lower_char s"

text \<open>\<^verbatim>\<open>sub in s\<close> on strings: \<open>sub\<close> occurs as a contiguous piece of \<open>s\<close>.\<close>

fun str_in :: "'a list \<Rightarrow> 'a list \<Rightarrow> bool" where
  "str_in sub [] = (sub = [])"
| "str_in sub (c # cs) = (prefix sub (c # cs) \<or> str_in sub cs)"

text \<open>\<^verbatim>\<open>any(k in s for k in ks)\<close>.\<close>

definition any_in :: "string list \<Rightarrow> string \<Rightarrow> bool" where
  "any_in ks s = list_ex (\<lambda>k. str_in k s) ks"

definition is_space :: "char \<Rightarrow> bool" where
  "is_space c =
     (let n = (of_char c :: nat)
      in (9 \<le> n \<and> n \<le> 13) \<or> (28 \<le> n \<and> n \<le> 32) \<or> n = 133 \<or> n = 160)"

definition is_digit :: "char \<Rightarrow> bool" where
  "is_digit c = (let n = (of_char c :: nat) in 48 \<le> n \<and> n \<le> 57)"

definition is_word :: "char \<Rightarrow> bool" where
  "is_word c =
     (let n = (of_char c :: nat)
      in (48 \<le> n \<and> n \<le> 57) \<or> (65 \<le> n \<and> n \<le> 90) \<or> n = 95 \<or> (97 \<le> n \<and> n \<le> 122) \<or>
         n = 170 \<or> n = 178 \<or> n = 179 \<or> n = 181 \<or> n = 185 \<or> n = 186 \<or>
         (188 \<le> n \<and> n \<le> 190) \<or> (192 \<le> n \<and> n \<le> 214) \<or> (216 \<le> n \<and> n \<le> 246) \<or>
         (248 \<le> n \<and> n \<le> 255))"

text \<open>The value of a string of decimal digits, and \<^verbatim>\<open>str(n)\<close> on an integer.\<close>

definition digit_val :: "char \<Rightarrow> int" where
  "digit_val c = int (of_char c) - 48"

definition int_of_digits :: "string \<Rightarrow> int" where
  "int_of_digits ds = foldl (\<lambda>n c. 10 * n + digit_val c) 0 ds"

fun str_nat :: "nat \<Rightarrow> string" where
  "str_nat n = (if n < 10 then [char_of (48 + n)] else str_nat (n div 10) @ [char_of (48 + n mod 10)])"

definition str_int :: "int \<Rightarrow> string" where
  "str_int i = (if i < 0 then CHR ''-'' # str_nat (nat (- i)) else str_nat (nat i))"

text \<open>
  The text the orchestrator returns holds two characters beyond code point 255, the bullet
  and the check mark of its templates, and \<^verbatim>\<open>upper()\<close> can leave the 8-bit range. Such text
  is a list of code points; \<open>uni\<close> reads a string as one.
\<close>

type_synonym ustr = "nat list"

definition uni :: "string \<Rightarrow> ustr" where
  "uni s = map of_char s"

definition bullet :: nat where "bullet = 8226"
definition check_mark :: nat where "check_mark = 10003"

definition num :: "int \<Rightarrow> ustr" where
  "num i = uni (str_int i)"

text \<open>
  \<^verbatim>\<open>s.upper()\<close>, used on ticket states: the sharp s (223) becomes \<^verbatim>\<open>SS\<close>, the micro sign
  (181) the capital mu (924), y with diaeresis (255) its capital (376).
\<close>

definition upper_char :: "char \<Rightarrow> ustr" where
  "upper_char c =
     (let n = (of_char c :: nat)
      in if (97 \<le> n \<and> n \<le> 122) \<or> (224 \<le> n \<and> n \<le> 254 \<and> n \<noteq> 247) then [n - 32]
         else if n = 223 then [83, 83]
         else if n = 181 then [924]
         else if n = 255 then [376]
         else [n])"

definition upper :: "string \<Rightarrow> ustr" where
  "upper s = concat (map upper_char s)"

text \<open>\<^verbatim>\<open>sep.join(xs)\<close>, and \<^verbatim>\<open>s.strip()\<close> with the white space of \<^verbatim>\<open>str.isspace\<close>.\<close>

fun join :: "'a list \<Rightarrow> 'a list list \<Rightarrow> 'a list" where
  "join sep [] = []"
| "join sep [x] = x"
| "join sep (x # y # ys) = x @ sep @ join sep (y # ys)"

definition is_space_cp :: "nat \<Rightarrow> bool" where
  "is_space_cp n =
     ((9 \<le> n \<and> n \<le> 13) \<or> (28 \<le> n \<and> n \<le> 32) \<or> n = 133 \<or> n = 160 \<or> n = 5760 \<or>
      (8192 \<le> n \<and> n \<le> 8202) \<or> n = 8232 \<or> n = 8233 \<or> n = 8239 \<or> n = 8287 \<or> n = 12288)"

definition strip :: "ustr \<Rightarrow> ustr" where
  "strip s = rev (dropWhile is_space_cp (rev (dropWhile is_space_cp s)))"

text \<open>
  The exceptions the orchestrator can meet outside the providers' own handlers, each with
  its message. \<^verbatim>\<open>int(s)\<close> raises \<^verbatim>\<open>ValueError\<close> on more than 4300 digits (the limit of the
  interpreter on conversions between text and integers, which nothing in the sources
  changes); leading zeros count.
\<close>

datatype exn = KeyError string | TypeError string | ValueError string | AttributeError string

definition max_str_digits :: nat where
  "max_str_digits = 4300"

definition int_limit_message :: "nat \<Rightarrow> string" where
  "int_limit_message n =
     ''Exceeds the limit (4300 digits) for integer string conversion: value has '' @ str_nat n @
     '' digits; use sys.set_int_max_str_digits() to increase the limit''"

definition py_int :: "string \<Rightarrow> exn + int" where
  "py_int ds =
     (if length ds > max_str_digits then Inl (ValueError (int_limit_message (length ds)))
      else Inr (int_of_digits ds))"

subsection \<open>The fragment of \<^verbatim>\<open>re\<close> the sources use\<close>

text \<open>
  Every pattern of the sources is a sequence of character classes, each taken once,
  optionally (\<^verbatim>\<open>?\<close>), or repeated greedily (\<^verbatim>\<open>*\<close>, \<^verbatim>\<open>+\<close>). \<open>rmatches\<close> lists the
  remainders the backtracking matcher of \<^verbatim>\<open>re\<close> would reach from the start of the text, in
  the order in which it tries them: longest repetition first.
\<close>

datatype quant = One | Opt | Star | Plus

type_synonym item = "(char \<Rightarrow> bool) \<times> quant"

fun rmatches :: "item list \<Rightarrow> string \<Rightarrow> string list" where
  "rmatches [] s = [s]"
| "rmatches ((p, One) # r) [] = []"
| "rmatches ((p, One) # r) (c # cs) = (if p c then rmatches r cs else [])"
| "rmatches ((p, Opt) # r) [] = rmatches r []"
| "rmatches ((p, Opt) # r) (c # cs) = (if p c then rmatches r cs else []) @ rmatches r (c # cs)"
| "rmatches ((p, Star) # r) [] = rmatches r []"
| "rmatches ((p, Star) # r) (c # cs) =
     (if p c then rmatches ((p, Star) # r) cs else []) @ rmatches r (c # cs)"
| "rmatches ((p, Plus) # r) [] = []"
| "rmatches ((p, Plus) # r) (c # cs) = (if p c then rmatches ((p, Star) # r) cs else [])"

definition lit :: "string \<Rightarrow> item list" where
  "lit w = map (\<lambda>c. ((\<lambda>x. x = c), One)) w"

text \<open>
  \<^verbatim>\<open>re.search\<close>: the leftmost start at which the matcher succeeds. The matcher is given
  the character before the start, which \<^verbatim>\<open>\b\<close> looks at.
\<close>

fun scan :: "(char option \<Rightarrow> string \<Rightarrow> 'a option) \<Rightarrow> char option \<Rightarrow> string \<Rightarrow> 'a option" where
  "scan m prev [] = m prev []"
| "scan m prev (c # cs) =
     (case m prev (c # cs) of Some r \<Rightarrow> Some r | None \<Rightarrow> scan m (Some c) cs)"

text \<open>
  A pattern \<open>pre(\d+)\<close>: the first remainder of \<open>pre\<close> that starts with a digit; group 1
  is the longest run of digits there.
\<close>

definition group_digits :: "item list \<Rightarrow> string \<Rightarrow> string option" where
  "group_digits pre s =
     (case filter (\<lambda>t. t \<noteq> [] \<and> is_digit (hd t)) (rmatches pre s) of
        [] \<Rightarrow> None
      | t # _ \<Rightarrow> Some (takeWhile is_digit t))"

text \<open>\<^verbatim>\<open>\b\<close> between the character before and the text ahead.\<close>

definition word_boundary :: "char option \<Rightarrow> string \<Rightarrow> bool" where
  "word_boundary prev s =
     ((case prev of None \<Rightarrow> False | Some c \<Rightarrow> is_word c) \<noteq>
      (case s of [] \<Rightarrow> False | c # _ \<Rightarrow> is_word c))"

text \<open>Group 0 of a match: the text the first remainder leaves behind.\<close>

definition whole_match :: "item list \<Rightarrow> string \<Rightarrow> string option" where
  "whole_match pat s =
     (case rmatches pat s of [] \<Rightarrow> None | t # _ \<Rightarrow> Some (take (length s - length t) s))"

section \<open>Data model\<close>

text \<open>
  The rows \<^verbatim>\<open>database.py\<close> selects. The schema itself is created outside the sources at
  hand; every column is taken as text, except the integer keys.
\<close>

record customer =
  cust_id :: int
  cust_name :: string
  cust_email :: string
  cust_phone :: string
  cust_status :: string
  cust_created_at :: string
  cust_updated_at :: string

record ticket =
  t_id :: int
  t_customer_id :: int
  t_issue :: string
  t_status :: string
  t_priority :: string
  t_created_at :: string

text \<open>
  The provider state: the two tables, in table order, and \<open>now\<close>, the text the wall clock
  yields when a row is written (a parameter of the model).
\<close>

record database =
  customers :: "customer list"
  tickets :: "ticket list"
  now :: string

text \<open>
  The \<^verbatim>\<open>parameters\<close> mapping of a request: the keys the providers read, each with the
  type its annotation in the sources gives it. A key that is absent, or bound to
  \<^verbatim>\<open>None\<close>, is \<open>None\<close>; the orchestrator binds \<^verbatim>\<open>None\<close> only to \<^verbatim>\<open>status\<close>, which the
  provider reads with \<^verbatim>\<open>get\<close>.
\<close>

record params =
  p_customer_id :: "int option"
  p_status :: "string option"
  p_limit :: "int option"
  p_updates :: "(string \<times> string) list option"
  p_query :: "string option"
  p_customer_data :: "customer option"
  p_issue :: "string option"
  p_priority :: "string option"

definition no_params :: params where
  "no_params = \<lparr>p_customer_id = None, p_status = None, p_limit = None, p_updates = None,
                  p_query = None, p_customer_data = None, p_issue = None, p_priority = None\<rparr>"

record request =
  action :: string
  parameters :: params
  from_agent :: string

text \<open>What the Support Service answers to \<^verbatim>\<open>handle_query\<close>; an absent key is \<open>None\<close>.\<close>

record support_result =
  sr_priority :: string
  sr_intents :: "string list"
  sr_needs_customer_context :: bool
  sr_needs_escalation :: bool
  sr_solution :: string
  sr_customer_name :: "string option"
  sr_customer_status :: "string option"

record ticket_created =
  tc_ticket_id :: int
  tc_customer_id :: int
  tc_issue :: string
  tc_priority :: string
  tc_status :: string

datatype payload =
    RNone
  | RCustomer customer
  | RCustomers "customer list"
  | RTickets "ticket list"
  | RExists bool
  | RSupport support_result
  | RTicketCreated ticket_created
  | RPriority string
  | RIntents "string list"

text \<open>
  The response mapping of a provider, in the two shapes \<^verbatim>\<open>handle_request\<close> builds:
  \<^verbatim>\<open>success\<close>, \<^verbatim>\<open>agent\<close> and \<^verbatim>\<open>result\<close>, or \<^verbatim>\<open>success\<close>, \<^verbatim>\<open>agent\<close> and \<^verbatim>\<open>error\<close>. Reading
  the key a shape lacks raises \<^verbatim>\<open>KeyError\<close>.
\<close>

datatype response = Success string payload | Failure string string

fun success :: "response \<Rightarrow> bool" where
  "success (Success _ _) = True"
| "success (Failure _ _) = False"

fun agent :: "response \<Rightarrow> string" where
  "agent (Success a _) = a"
| "agent (Failure a _) = a"

fun result :: "response \<Rightarrow> exn + payload" where
  "result (Success _ r) = Inr r"
| "result (Failure _ _) = Inl (KeyError ''result'')"

fun error :: "response \<Rightarrow> exn + string" where
  "error (Success _ _) = Inl (KeyError ''error'')"
| "error (Failure _ e) = Inr e"

text \<open>
  The coordination log. An entry of the source is a line of text that starts with the time
  of day; the model keeps its parts and leaves the time out.
\<close>

datatype a2a_message = Outbound string params | Text string

datatype log_entry =
    LogEntry string string string
  | A2AEntry string string a2a_message

datatype tier = Simple | Complex | MultiStep

fun show_tier :: "tier \<Rightarrow> string" where
  "show_tier Simple = ''simple''"
| "show_tier Complex = ''complex''"
| "show_tier MultiStep = ''multi-step''"

record analysis =
  query :: string
  customer_id :: "int option"
  needs_data_agent :: bool
  needs_support_agent :: bool
  needs_coordination :: bool
  complexity :: tier
  intents :: "string list"

text \<open>The orchestrator: the state of its providers and its log.\<close>

record router =
  db :: database
  coordination_log :: "log_entry list"

definition router_name :: string where "router_name = ''RouterAgent''"
definition data_agent_name :: string where "data_agent_name = ''CustomerDataAgent''"
definition support_agent_name :: string where "support_agent_name = ''SupportAgent''"

section \<open>The orchestrator: logging and classification\<close>

definition log :: "string \<Rightarrow> string \<Rightarrow> router \<Rightarrow> router" where
  "log message level s =
     s\<lparr>coordination_log := coordination_log s @ [LogEntry router_name level message]\<rparr>"

definition log_a2a_communication :: "string \<Rightarrow> string \<Rightarrow> a2a_message \<Rightarrow> router \<Rightarrow> router" where
  "log_a2a_communication from_a to_a message s =
     s\<lparr>coordination_log := coordination_log s @ [A2AEntry from_a to_a message]\<rparr>"

definition get_coordination_log :: "router \<Rightarrow> log_entry list" where
  "get_coordination_log s = coordination_log s"

definition clear_coordination_log :: "router \<Rightarrow> router" where
  "clear_coordination_log s = s\<lparr>coordination_log := []\<rparr>"

text \<open>The four identifier patterns of \<^verbatim>\<open>extract_customer_id\<close>, each ending in \<^verbatim>\<open>(\d+)\<close>.\<close>

definition pat_customer_id :: "item list" where
  "pat_customer_id =
     lit ''customer'' @ [(is_space, Plus)] @ lit ''id'' @
     [(is_space, Star), ((\<lambda>c. c = CHR '':''), Opt), (is_space, Star)]"

definition pat_id :: "item list" where
  "pat_id = lit ''id'' @ [(is_space, Star), ((\<lambda>c. c = CHR '':''), Opt), (is_space, Star)]"

definition pat_customer :: "item list" where
  "pat_customer = lit ''customer'' @ [(is_space, Plus)]"

definition pat_im_customer :: "item list" where
  "pat_im_customer =
     lit [CHR ''I'', CHR 0x27, CHR ''m''] @ [(is_space, Plus)] @ lit ''customer'' @ [(is_space, Plus)]"

definition patterns :: "(char option \<Rightarrow> string \<Rightarrow> string option) list" where
  "patterns =
     [\<lambda>prev. group_digits pat_customer_id,
      \<lambda>prev. group_digits pat_id,
      \<lambda>prev. group_digits pat_customer,
      \<lambda>prev s. if word_boundary prev s then group_digits pat_im_customer s else None]"

text \<open>
  The loop over the patterns: the first that matches decides, and \<^verbatim>\<open>int\<close> is applied to
  its group, which may raise.
\<close>

fun first_match :: "(char option \<Rightarrow> string \<Rightarrow> string option) list \<Rightarrow> string \<Rightarrow> exn + int option" where
  "first_match [] s = Inr None"
| "first_match (m # ms) s =
     (case scan m None s of
        Some g \<Rightarrow> (case py_int g of Inl e \<Rightarrow> Inl e | Inr n \<Rightarrow> Inr (Some n))
      | None \<Rightarrow> first_match ms s)"

definition extract_customer_id :: "string \<Rightarrow> exn + int option" where
  "extract_customer_id q = first_match patterns (lower q)"

definition data_can_handle :: "string \<Rightarrow> bool" where
  "data_can_handle task =
     any_in [''customer'', ''account'', ''profile'', ''information'', ''data'',
             ''email'', ''phone'', ''status'', ''update'', ''get'', ''fetch'', ''retrieve'']
       (lower task)"

definition support_can_handle :: "string \<Rightarrow> bool" where
  "support_can_handle task =
     any_in [''help'', ''support'', ''issue'', ''problem'', ''ticket'',
             ''upgrade'', ''cancel'', ''billing'', ''refund'', ''assistance'',
             ''question'', ''how to'', [CHR ''c'', CHR ''a'', CHR ''n'', CHR 0x27, CHR ''t''],
             ''cannot'', ''error'']
       (lower task)"

text \<open>\<^verbatim>\<open>repr\<close> of a list of plain words, as the log line of the analysis prints it.\<close>

definition repr_words :: "string list \<Rightarrow> string" where
  "repr_words ws = ''['' @ join '', '' (map (\<lambda>w. [CHR 0x27] @ w @ [CHR 0x27]) ws) @ '']''"

text \<open>
  \<^verbatim>\<open>analyze_query\<close>. The first log line is written before the identifier is extracted; an
  exception raised there leaves the method with the log as it then is, and no analysis.
  \<open>classify\<close> is the rest of the method's body, from the dictionary literal to the last
  branch of the second cascade, given the identifier.
\<close>

definition classify :: "string \<Rightarrow> int option \<Rightarrow> analysis" where
  "classify q cid =
     (let query_lower = lower q;
          a0 = \<lparr>query = q, customer_id = cid,
                needs_data_agent = False, needs_support_agent = False,
                needs_coordination = False, complexity = Simple, intents = []\<rparr>;
          a1 = (if data_can_handle q
                then a0\<lparr>needs_data_agent := True, intents := intents a0 @ [''data'']\<rparr>
                else a0);
          a2 = (if support_can_handle q
                then a1\<lparr>needs_support_agent := True, intents := intents a1 @ [''support'']\<rparr>
                else a1);
          a3 = (if str_in ''active customers'' query_lower \<and> str_in ''tickets'' query_lower
                then a2\<lparr>complexity := MultiStep, needs_coordination := True\<rparr>
                else if length (intents a2) > 1
                then a2\<lparr>complexity := Complex, needs_coordination := True\<rparr>
                else if any_in [''all'', ''list'', ''show me'', ''get all''] query_lower
                then a2\<lparr>complexity := Complex, needs_coordination := True\<rparr>
                else a2);
          a4 = (if any_in [''and'', ''also'', ''then'', ''after''] query_lower
                then a3\<lparr>complexity := MultiStep, needs_coordination := True\<rparr>
                else if (str_in ''update'' query_lower \<or> str_in ''change'' query_lower) \<and>
                        (str_in ''email'' query_lower \<or> str_in ''phone'' query_lower)
                then a3\<lparr>complexity := MultiStep, needs_coordination := True\<rparr>
                else if (str_in ''status'' query_lower \<or> str_in ''what is'' query_lower) \<and>
                        str_in ''ticket'' query_lower \<and> str_in ''priority'' query_lower
                then (let b = a3\<lparr>complexity := MultiStep, needs_coordination := True\<rparr>;
                          b1 = (if ''data'' \<notin> set (intents b)
                                then b\<lparr>intents := intents b @ [''data'']\<rparr> else b);
                          b2 = (if ''support'' \<notin> set (intents b1)
                                then b1\<lparr>intents := intents b1 @ [''support'']\<rparr> else b1)
                      in b2)
                else a3)
      in a4)"

definition analyze_query :: "string \<Rightarrow> router \<Rightarrow> (exn + analysis) \<times> router" where
  "analyze_query q s =
     (let s1 = log (''Analyzing query: '' @ take 80 q @ ''...'') ''INFO'' s
      in case extract_customer_id q of
           Inl e \<Rightarrow> (Inl e, s1)
         | Inr cid \<Rightarrow>
             (let a = classify q cid;
                  s2 = log (''Analysis: '' @ show_tier (complexity a) @ '' query, needs: '' @
                            repr_words (intents a)) ''INFO'' s1
              in (Inr a, s2)))"

section \<open>The store: \<^verbatim>\<open>database.py\<close>\<close>

text \<open>
  Each method opens the store, runs one statement and closes it. A statement that binds an
  integer outside the 64-bit range raises \<^verbatim>\<open>OverflowError\<close>, which is no
  \<^verbatim>\<open>sqlite3.Error\<close>; the methods below return its message on the left. The table
  definitions are not among the sources: columns carry no constraint here, and the store
  answers every well-formed statement.
\<close>

definition fits_sqlite :: "int \<Rightarrow> bool" where
  "fits_sqlite i = (- (2 ^ 63) \<le> i \<and> i < 2 ^ 63)"

definition overflow_message :: string where
  "overflow_message = ''Python int too large to convert to SQLite INTEGER''"

definition db_get_customer :: "int \<Rightarrow> database \<Rightarrow> string + customer option" where
  "db_get_customer cid d =
     (if \<not> fits_sqlite cid then Inl overflow_message
      else Inr (find (\<lambda>c. cust_id c = cid) (customers d)))"

text \<open>\<^verbatim>\<open>LIMIT\<close> with a negative bound returns every row.\<close>

definition db_list_customers :: "string option \<Rightarrow> int \<Rightarrow> database \<Rightarrow> string + customer list" where
  "db_list_customers status limit d =
     (if \<not> fits_sqlite limit then Inl overflow_message
      else
        let rows = (case status of
                      None \<Rightarrow> customers d
                    | Some st \<Rightarrow> if st = [] then customers d
                                else filter (\<lambda>c. cust_status c = st) (customers d))
        in Inr (if limit < 0 then rows else take (nat limit) rows))"

definition allowed_fields :: "string list" where
  "allowed_fields = [''name'', ''email'', ''phone'', ''status'']"

definition set_field :: "string \<Rightarrow> string \<Rightarrow> customer \<Rightarrow> customer" where
  "set_field f v c =
     (if f = ''name'' then c\<lparr>cust_name := v\<rparr>
      else if f = ''email'' then c\<lparr>cust_email := v\<rparr>
      else if f = ''phone'' then c\<lparr>cust_phone := v\<rparr>
      else if f = ''status'' then c\<lparr>cust_status := v\<rparr>
      else c)"

definition apply_updates :: "(string \<times> string) list \<Rightarrow> string \<Rightarrow> customer \<Rightarrow> customer" where
  "apply_updates data stamp c =
     (fold (\<lambda>f c'. case map_of data f of None \<Rightarrow> c' | Some v \<Rightarrow> set_field f v c')
           allowed_fields c)
       \<lparr>cust_updated_at := stamp\<rparr>"

definition db_update_customer ::
  "int \<Rightarrow> (string \<times> string) list \<Rightarrow> database \<Rightarrow> (string + bool) \<times> database" where
  "db_update_customer cid data d =
     (let update_fields = filter (\<lambda>f. map_of data f \<noteq> None) allowed_fields
      in if update_fields = [] then (Inr False, d)
         else if \<not> fits_sqlite cid then (Inl overflow_message, d)
         else (Inr (list_ex (\<lambda>c. cust_id c = cid) (customers d)),
               d\<lparr>customers :=
                    map (\<lambda>c. if cust_id c = cid then apply_updates data (now d) c else c)
                        (customers d)\<rparr>))"

text \<open>
  \<^verbatim>\<open>create_ticket\<close> inserts a row and returns \<^verbatim>\<open>lastrowid\<close>. The key and the time of
  creation are given by the table definition, which is not among the sources: the key is
  taken one above the largest of the table, the time as \<open>now\<close>.
\<close>

definition next_ticket_id :: "database \<Rightarrow> int" where
  "next_ticket_id d = fold max (map t_id (tickets d)) 0 + 1"

definition db_create_ticket ::
  "int \<Rightarrow> string \<Rightarrow> string \<Rightarrow> database \<Rightarrow> (string + int option) \<times> database" where
  "db_create_ticket cid issue priority d =
     (if \<not> fits_sqlite cid then (Inl overflow_message, d)
      else if \<not> list_ex (\<lambda>c. cust_id c = cid) (customers d) then (Inr None, d)
      else (Inr (Some (next_ticket_id d)),
            d\<lparr>tickets := tickets d @
                 [\<lparr>t_id = next_ticket_id d, t_customer_id = cid, t_issue = issue,
                   t_status = ''open'', t_priority = priority, t_created_at = now d\<rparr>]\<rparr>))"

text \<open>
  \<^verbatim>\<open>ORDER BY created_at DESC\<close>: the latest first; rows of equal time keep their order in
  the table.
\<close>

definition db_get_customer_history :: "int \<Rightarrow> database \<Rightarrow> string + ticket list" where
  "db_get_customer_history cid d =
     (if \<not> fits_sqlite cid then Inl overflow_message
      else Inr (rev (sort_key t_created_at
                  (rev (filter (\<lambda>t. t_customer_id t = cid) (tickets d))))))"

section \<open>The tool server: \<^verbatim>\<open>server.py\<close>\<close>

text \<open>
  The tools return their value on the right, or on the left the message of the exception
  they raise or pass on. \<^verbatim>\<open>call_tool\<close> turns it into the mapping with \<^verbatim>\<open>success\<close>.
\<close>

datatype tool_result = ToolOk payload | ToolError string

definition get_customer :: "int \<Rightarrow> database \<Rightarrow> string + payload" where
  "get_customer cid d =
     (case db_get_customer cid d of
        Inl e \<Rightarrow> Inl e
      | Inr None \<Rightarrow> Inl (''Customer '' @ str_int cid @ '' not found'')
      | Inr (Some c) \<Rightarrow> Inr (RCustomer c))"

definition list_customers :: "string option \<Rightarrow> int \<Rightarrow> database \<Rightarrow> string + payload" where
  "list_customers status limit d =
     (case db_list_customers status limit d of Inl e \<Rightarrow> Inl e | Inr cs \<Rightarrow> Inr (RCustomers cs))"

definition update_customer ::
  "int \<Rightarrow> (string \<times> string) list \<Rightarrow> database \<Rightarrow> (string + payload) \<times> database" where
  "update_customer cid data d =
     (case db_update_customer cid data d of
        (Inl e, d') \<Rightarrow> (Inl e, d')
      | (Inr False, d') \<Rightarrow> (Inl (''Failed to update customer '' @ str_int cid), d')
      | (Inr True, d') \<Rightarrow>
          (case db_get_customer cid d' of
             Inl e \<Rightarrow> (Inl e, d')
           | Inr None \<Rightarrow> (Inr RNone, d')
           | Inr (Some c) \<Rightarrow> (Inr (RCustomer c), d')))"

definition create_ticket ::
  "int \<Rightarrow> string \<Rightarrow> string \<Rightarrow> database \<Rightarrow> (string + payload) \<times> database" where
  "create_ticket cid issue priority d =
     (case db_create_ticket cid issue priority d of
        (Inl e, d') \<Rightarrow> (Inl e, d')
      | (Inr (Some tid), d') \<Rightarrow>
          (if tid \<noteq> 0
           then (Inr (RTicketCreated \<lparr>tc_ticket_id = tid, tc_customer_id = cid, tc_issue = issue,
                                      tc_priority = priority, tc_status = ''open''\<rparr>), d')
           else (Inl (''Failed to create ticket for customer '' @ str_int cid), d'))
      | (Inr None, d') \<Rightarrow> (Inl (''Failed to create ticket for customer '' @ str_int cid), d'))"

definition get_customer_history :: "int \<Rightarrow> database \<Rightarrow> string + payload" where
  "get_customer_history cid d =
     (case db_get_customer_history cid d of Inl e \<Rightarrow> Inl e | Inr ts \<Rightarrow> Inr (RTickets ts))"

text \<open>
  \<^verbatim>\<open>call_tool\<close> passes the mapping as keyword arguments (the tool's \<^verbatim>\<open>data\<close> is the field
  \<open>p_updates\<close>). A required argument that is missing is a \<^verbatim>\<open>TypeError\<close> of the call,
  caught like every other exception.
\<close>

definition missing_argument :: "string \<Rightarrow> string \<Rightarrow> string" where
  "missing_argument tool arg =
     ''MCPServer.'' @ tool @ ''() missing 1 required positional argument: '' @
     [CHR 0x27] @ arg @ [CHR 0x27]"

definition to_tool_result :: "string + payload \<Rightarrow> tool_result" where
  "to_tool_result r = (case r of Inl e \<Rightarrow> ToolError e | Inr v \<Rightarrow> ToolOk v)"

definition call_tool :: "string \<Rightarrow> params \<Rightarrow> database \<Rightarrow> tool_result \<times> database" where
  "call_tool tool_name ps d =
     (if tool_name = ''get_customer'' then
        (case p_customer_id ps of
           None \<Rightarrow> (ToolError (missing_argument tool_name ''customer_id''), d)
         | Some cid \<Rightarrow> (to_tool_result (get_customer cid d), d))
      else if tool_name = ''list_customers'' then
        (to_tool_result
           (list_customers (p_status ps) (case p_limit ps of None \<Rightarrow> 10 | Some l \<Rightarrow> l) d), d)
      else if tool_name = ''update_customer'' then
        (case (p_customer_id ps, p_updates ps) of
           (None, _) \<Rightarrow> (ToolError (missing_argument tool_name ''customer_id''), d)
         | (Some cid, None) \<Rightarrow> (ToolError (missing_argument tool_name ''data''), d)
         | (Some cid, Some data) \<Rightarrow>
             (case update_customer cid data d of (r, d') \<Rightarrow> (to_tool_result r, d')))
      else if tool_name = ''create_ticket'' then
        (case (p_customer_id ps, p_issue ps) of
           (None, _) \<Rightarrow> (ToolError (missing_argument tool_name ''customer_id''), d)
         | (Some cid, None) \<Rightarrow> (ToolError (missing_argument tool_name ''issue''), d)
         | (Some cid, Some issue) \<Rightarrow>
             (case create_ticket cid issue
                     (case p_priority ps of None \<Rightarrow> ''medium'' | Some p \<Rightarrow> p) d of
                (r, d') \<Rightarrow> (to_tool_result r, d')))
      else if tool_name = ''get_customer_history'' then
        (case p_customer_id ps of
           None \<Rightarrow> (ToolError (missing_argument tool_name ''customer_id''), d)
         | Some cid \<Rightarrow> (to_tool_result (get_customer_history cid d), d))
      else (ToolError (''Unknown tool: '' @ tool_name), d))"

section \<open>The Data Service: \<^verbatim>\<open>data_agent.py\<close>\<close>

text \<open>
  A method returns the tool's value, or raises \<^verbatim>\<open>ValueError\<close> with the tool's error
  text: the text is on the left.
\<close>

definition of_tool_result :: "tool_result \<Rightarrow> string + payload" where
  "of_tool_result r = (case r of ToolOk v \<Rightarrow> Inr v | ToolError e \<Rightarrow> Inl e)"

definition get_customer_info :: "int \<Rightarrow> database \<Rightarrow> (string + payload) \<times> database" where
  "get_customer_info cid d =
     (case call_tool ''get_customer'' (no_params\<lparr>p_customer_id := Some cid\<rparr>) d of
        (r, d') \<Rightarrow> (of_tool_result r, d'))"

definition data_list_customers ::
  "string option \<Rightarrow> int \<Rightarrow> database \<Rightarrow> (string + payload) \<times> database" where
  "data_list_customers status limit d =
     (let ps = no_params\<lparr>p_limit := Some limit\<rparr>;
          ps' = (case status of
                   None \<Rightarrow> ps
                 | Some st \<Rightarrow> if st = [] then ps else ps\<lparr>p_status := Some st\<rparr>)
      in case call_tool ''list_customers'' ps' d of (r, d') \<Rightarrow> (of_tool_result r, d'))"

definition update_customer_info ::
  "int \<Rightarrow> (string \<times> string) list \<Rightarrow> database \<Rightarrow> (string + payload) \<times> database" where
  "update_customer_info cid updates d =
     (case call_tool ''update_customer''
             (no_params\<lparr>p_customer_id := Some cid, p_updates := Some updates\<rparr>) d of
        (r, d') \<Rightarrow> (of_tool_result r, d'))"

definition data_get_customer_history :: "int \<Rightarrow> database \<Rightarrow> (string + payload) \<times> database" where
  "data_get_customer_history cid d =
     (case call_tool ''get_customer_history'' (no_params\<lparr>p_customer_id := Some cid\<rparr>) d of
        (r, d') \<Rightarrow> (of_tool_result r, d'))"

definition validate_customer_exists :: "int \<Rightarrow> database \<Rightarrow> bool \<times> database" where
  "validate_customer_exists cid d =
     (case get_customer_info cid d of (Inr _, d') \<Rightarrow> (True, d') | (Inl _, d') \<Rightarrow> (False, d'))"

definition get_premium_customers :: "database \<Rightarrow> (string + payload) \<times> database" where
  "get_premium_customers d = data_list_customers (Some ''active'') 100 d"

text \<open>
  \<^verbatim>\<open>handle_request\<close> catches every exception of the action and answers its text.
  \<^verbatim>\<open>str\<close> of a \<^verbatim>\<open>KeyError\<close> is the key in quotes.
\<close>

definition key_error_text :: "string \<Rightarrow> string" where
  "key_error_text k = [CHR 0x27] @ k @ [CHR 0x27]"

definition respond :: "string \<Rightarrow> (string + payload) \<times> database \<Rightarrow> response \<times> database" where
  "respond name r =
     (case r of (Inr v, d') \<Rightarrow> (Success name v, d') | (Inl e, d') \<Rightarrow> (Failure name e, d'))"

definition data_handle_request :: "request \<Rightarrow> database \<Rightarrow> response \<times> database" where
  "data_handle_request req d =
     (let act = action req; ps = parameters req
      in if act = ''get_customer'' then
           (case p_customer_id ps of
              None \<Rightarrow> (Failure data_agent_name (key_error_text ''customer_id''), d)
            | Some cid \<Rightarrow> respond data_agent_name (get_customer_info cid d))
         else if act = ''list_customers'' then
           respond data_agent_name
             (data_list_customers (p_status ps) (case p_limit ps of None \<Rightarrow> 10 | Some l \<Rightarrow> l) d)
         else if act = ''update_customer'' then
           (case (p_customer_id ps, p_updates ps) of
              (None, _) \<Rightarrow> (Failure data_agent_name (key_error_text ''customer_id''), d)
            | (Some cid, None) \<Rightarrow> (Failure data_agent_name (key_error_text ''updates''), d)
            | (Some cid, Some updates) \<Rightarrow>
                respond data_agent_name (update_customer_info cid updates d))
         else if act = ''get_history'' then
           (case p_customer_id ps of
              None \<Rightarrow> (Failure data_agent_name (key_error_text ''customer_id''), d)
            | Some cid \<Rightarrow> respond data_agent_name (data_get_customer_history cid d))
         else if act = ''validate_customer'' then
           (case p_customer_id ps of
              None \<Rightarrow> (Failure data_agent_name (key_error_text ''customer_id''), d)
            | Some cid \<Rightarrow>
                (case validate_customer_exists cid d of
                   (b, d') \<Rightarrow> (Success data_agent_name (RExists b), d')))
         else if act = ''get_premium_customers'' then
           respond data_agent_name (get_premium_customers d)
         else (Failure data_agent_name (''Unknown action: '' @ act), d))"

section \<open>The Support Service: \<^verbatim>\<open>support_agent.py\<close>\<close>

definition analyze_urgency :: "string \<Rightarrow> string" where
  "analyze_urgency q =
     (let query_lower = lower q
      in if any_in [''urgent'', ''immediately'', ''critical'', ''emergency'', ''asap'',
                    ''charged twice'', ''cannot access'', ''locked out'', ''security'',
                    ''fraud'', ''unauthorized'', ''hacked''] query_lower
         then ''high''
         else if any_in [''billing'', ''payment'', ''refund'', ''cancel'', ''upgrade'',
                         ''not working'', ''broken'', ''error'', ''failed''] query_lower
         then ''medium''
         else ''low'')"

definition intent_keywords :: "(string \<times> string list) list" where
  "intent_keywords =
     [(''billing'', [''billing'', ''charged'', ''payment'', ''invoice'', ''refund'']),
      (''cancellation'', [''cancel'', ''unsubscribe'', ''stop subscription'']),
      (''upgrade'', [''upgrade'', ''premium'', ''tier'', ''plan change'']),
      (''technical'', [''not working'', ''error'', ''bug'', ''broken'', ''crash'']),
      (''account'', [''account'', ''profile'', ''password'', ''login'', ''access'']),
      (''information'', [''show'', ''get'', ''display'', ''what'', ''status''])]"

definition detect_multiple_intents :: "string \<Rightarrow> string list" where
  "detect_multiple_intents q =
     map fst (filter (\<lambda>(intent, keywords). any_in keywords (lower q)) intent_keywords)"

definition needs_customer_context :: "string \<Rightarrow> bool" where
  "needs_customer_context q =
     any_in [''my account'', ''my subscription'', ''my billing'', ''my profile'',
             ''customer id'', ''i am'', ''i'm'', ''upgrade my'', ''cancel my''] (lower q)"

definition solutions :: "(string \<times> string) list" where
  "solutions =
     [(''billing'', ''I can help you with billing issues. Let me review your account and recent transactions.''),
      (''upgrade'', ''I'd be happy to help you upgrade your account. Let me check your current plan and available options.''),
      (''technical'', ''I understand you're experiencing technical difficulties. Let me investigate this issue for you.''),
      (''cancellation'', ''I'm sorry to hear you want to cancel. Let me help you with that process.''),
      (''account'', ''I can assist you with your account. Let me pull up your information.''),
      (''password'', ''For password issues, I can help you reset it securely.'')]"

definition generate_solution :: "string \<Rightarrow> customer option \<Rightarrow> string" where
  "generate_solution issue_type customer_data =
     (case map_of solutions issue_type of
        Some t \<Rightarrow> t
      | None \<Rightarrow> ''I'm here to help. Let me look into this for you.'')"

definition handle_support_query :: "string \<Rightarrow> customer option \<Rightarrow> support_result" where
  "handle_support_query q customer_data =
     (let priority = analyze_urgency q;
          intents = detect_multiple_intents q;
          needs_context = needs_customer_context q
      in \<lparr>sr_priority = priority,
          sr_intents = intents,
          sr_needs_customer_context = needs_context,
          sr_needs_escalation = (length intents > 1 \<or> priority = ''high''),
          sr_solution =
            (case intents of
               [] \<Rightarrow> ''I'm here to help. Could you provide more details about your issue?''
             | primary_intent # _ \<Rightarrow> generate_solution primary_intent customer_data),
          sr_customer_name = map_option cust_name customer_data,
          sr_customer_status = map_option cust_status customer_data\<rparr>)"

definition support_create_ticket ::
  "int \<Rightarrow> string \<Rightarrow> string option \<Rightarrow> database \<Rightarrow> (string + payload) \<times> database" where
  "support_create_ticket cid issue priority d =
     (let priority' = (case priority of None \<Rightarrow> analyze_urgency issue | Some p \<Rightarrow> p)
      in case call_tool ''create_ticket''
                (no_params\<lparr>p_customer_id := Some cid, p_issue := Some issue,
                            p_priority := Some priority'\<rparr>) d of
           (r, d') \<Rightarrow> (of_tool_result r, d'))"

definition support_handle_request :: "request \<Rightarrow> database \<Rightarrow> response \<times> database" where
  "support_handle_request req d =
     (let act = action req; ps = parameters req
      in if act = ''create_ticket'' then
           (case (p_customer_id ps, p_issue ps) of
              (None, _) \<Rightarrow> (Failure support_agent_name (key_error_text ''customer_id''), d)
            | (Some cid, None) \<Rightarrow> (Failure support_agent_name (key_error_text ''issue''), d)
            | (Some cid, Some issue) \<Rightarrow>
                respond support_agent_name (support_create_ticket cid issue (p_priority ps) d))
         else if act = ''handle_query'' then
           (case p_query ps of
              None \<Rightarrow> (Failure support_agent_name (key_error_text ''query''), d)
            | Some q \<Rightarrow>
                (Success support_agent_name (RSupport (handle_support_query q (p_customer_data ps))), d))
         else if act = ''analyze_urgency'' then
           (case p_query ps of
              None \<Rightarrow> (Failure support_agent_name (key_error_text ''query''), d)
            | Some q \<Rightarrow> (Success support_agent_name (RPriority (analyze_urgency q)), d))
         else if act = ''detect_intents'' then
           (case p_query ps of
              None \<Rightarrow> (Failure support_agent_name (key_error_text ''query''), d)
            | Some q \<Rightarrow> (Success support_agent_name (RIntents (detect_multiple_intents q)), d))
         else (Failure support_agent_name (''Unknown action: '' @ act), d))"

section \<open>The orchestrator: dispatch\<close>

definition route_to_data_agent :: "string \<Rightarrow> params \<Rightarrow> router \<Rightarrow> response \<times> router" where
  "route_to_data_agent act ps s =
     (let s1 = log_a2a_communication router_name data_agent_name (Outbound act ps) s;
          request = \<lparr>action = act, parameters = ps, from_agent = router_name\<rparr>
      in case data_handle_request request (db s1) of
           (response, d') \<Rightarrow>
             (response,
              log_a2a_communication data_agent_name router_name
                (Text (''Response: '' @ (if success response then ''Success'' else ''Failed'')))
                (s1\<lparr>db := d'\<rparr>)))"

definition route_to_support_agent :: "string \<Rightarrow> params \<Rightarrow> router \<Rightarrow> response \<times> router" where
  "route_to_support_agent act ps s =
     (let s1 = log_a2a_communication router_name support_agent_name (Outbound act ps) s;
          request = \<lparr>action = act, parameters = ps, from_agent = router_name\<rparr>
      in case support_handle_request request (db s1) of
           (response, d') \<Rightarrow>
             (response,
              log_a2a_communication support_agent_name router_name
                (Text (''Response: '' @ (if success response then ''Success'' else ''Failed'')))
                (s1\<lparr>db := d'\<rparr>)))"

subsection \<open>Reading a payload\<close>

text \<open>
  The strategies read the payload of an action in the shape that action gives it. The
  other shapes are never the answer to that action; on them the functions below give the
  exception of the read: a subscript with a key, \<^verbatim>\<open>get\<close>, or the walk over the rows.
\<close>

fun subscript_exn :: "payload \<Rightarrow> string \<Rightarrow> exn" where
  "subscript_exn RNone k = TypeError ''NoneType object is not subscriptable''"
| "subscript_exn (RCustomers _) k = TypeError ''list indices must be integers or slices, not str''"
| "subscript_exn (RTickets _) k = TypeError ''list indices must be integers or slices, not str''"
| "subscript_exn _ k = KeyError k"

fun customer_of :: "string \<Rightarrow> payload \<Rightarrow> exn + customer" where
  "customer_of k (RCustomer c) = Inr c"
| "customer_of k p = Inl (subscript_exn p k)"

fun tickets_of :: "payload \<Rightarrow> exn + ticket list" where
  "tickets_of (RTickets ts) = Inr ts"
| "tickets_of p = Inl (TypeError ''payload is not a list of tickets'')"

fun customers_of :: "payload \<Rightarrow> exn + customer list" where
  "customers_of (RCustomers cs) = Inr cs"
| "customers_of p = Inl (TypeError ''payload is not a list of customers'')"

fun get_exn :: "payload \<Rightarrow> exn option" where
  "get_exn RNone = Some (AttributeError ''NoneType object has no attribute get'')"
| "get_exn (RCustomers _) = Some (AttributeError ''list object has no attribute get'')"
| "get_exn (RTickets _) = Some (AttributeError ''list object has no attribute get'')"
| "get_exn _ = None"

text \<open>\<^verbatim>\<open>payload.get("solution", default)\<close> and \<^verbatim>\<open>payload["solution"]\<close>.\<close>

fun solution_get :: "string \<Rightarrow> payload \<Rightarrow> exn + string" where
  "solution_get dflt (RSupport sr) = Inr (sr_solution sr)"
| "solution_get dflt p = (case get_exn p of Some e \<Rightarrow> Inl e | None \<Rightarrow> Inr dflt)"

fun solution_of :: "payload \<Rightarrow> exn + string" where
  "solution_of (RSupport sr) = Inr (sr_solution sr)"
| "solution_of p = Inl (subscript_exn p ''solution'')"

text \<open>\<^verbatim>\<open>payload.get("needs_customer_context")\<close>, read as a condition.\<close>

fun needs_context_get :: "payload \<Rightarrow> exn + bool" where
  "needs_context_get (RSupport sr) = Inr (sr_needs_customer_context sr)"
| "needs_context_get p = (case get_exn p of Some e \<Rightarrow> Inl e | None \<Rightarrow> Inr False)"

text \<open>The payload handed on as \<^verbatim>\<open>customer_data\<close>.\<close>

fun customer_data_of :: "payload \<Rightarrow> customer option" where
  "customer_data_of (RCustomer c) = Some c"
| "customer_data_of p = None"

subsection \<open>The identifier as a condition\<close>

text \<open>
  \<^verbatim>\<open>analysis["customer_id"]\<close> stands as a condition in the strategies: \<^verbatim>\<open>None\<close> and 0
  are false there. \<open>cid_of\<close> is the identifier, 0 when there is none.
\<close>

definition cid_of :: "analysis \<Rightarrow> int" where
  "cid_of a = (case customer_id a of None \<Rightarrow> 0 | Some n \<Rightarrow> n)"

definition has_id :: "analysis \<Rightarrow> bool" where
  "has_id a = (cid_of a \<noteq> 0)"

definition with_id :: "int \<Rightarrow> params" where
  "with_id cid = no_params\<lparr>p_customer_id := Some cid\<rparr>"

subsection \<open>Templates\<close>

definition nl :: ustr where "nl = [10]"

definition customer_information :: "customer \<Rightarrow> ustr" where
  "customer_information c =
     uni ''Customer Information:'' @ nl @
     uni ''Name: '' @ uni (cust_name c) @ nl @
     uni ''Email: '' @ uni (cust_email c) @ nl @
     uni ''Phone: '' @ uni (cust_phone c) @ nl @
     uni ''Status: '' @ uni (cust_status c)"

definition error_text :: "string \<Rightarrow> ustr" where
  "error_text e = uni ''Error: '' @ uni e"

definition history_line :: "ticket \<Rightarrow> ustr" where
  "history_line t =
     uni ''  '' @ [bullet] @ uni '' ['' @ upper (t_status t) @ uni ''] '' @ uni (t_issue t) @ nl @
     uni ''    Priority: '' @ uni (t_priority t) @ uni '', Created: '' @ uni (t_created_at t) @ nl"

definition history_text :: "int \<Rightarrow> ticket list \<Rightarrow> ustr" where
  "history_text cid ts =
     (if ts \<noteq> []
      then strip (uni ''Ticket History for Customer '' @ num cid @ uni '':'' @ nl @
                  concat (map history_line ts))
      else uni ''No tickets found for customer '' @ num cid)"

definition customer_line :: "customer \<Rightarrow> ustr" where
  "customer_line c =
     uni ''  '' @ [bullet] @ uni '' '' @ uni (cust_name c) @ uni '' (ID: '' @ num (cust_id c) @
     uni '', Status: '' @ uni (cust_status c) @ uni '')'' @ nl"

definition customer_list_text :: "customer list \<Rightarrow> ustr" where
  "customer_list_text cs =
     (if cs \<noteq> []
      then strip (uni ''Customer List ('' @ num (int (length cs)) @ uni '' customers):'' @ nl @
                  concat (map customer_line cs))
      else uni ''No customers found'')"

section \<open>The orchestrator: the three strategies\<close>

text \<open>
  A strategy returns the text, or the exception that leaves it, with the state as it then
  is. The branches of a strategy that return on every path are written as one cascade.
\<close>

definition history_answer :: "int \<Rightarrow> response \<times> router \<Rightarrow> (exn + ustr) \<times> router" where
  "history_answer cid r =
     (case r of
        (Success ag p, s1) \<Rightarrow>
          (case tickets_of p of
             Inl e \<Rightarrow> (Inl e, s1)
           | Inr ts \<Rightarrow> (Inr (history_text cid ts), s1))
      | (Failure ag e, s1) \<Rightarrow> (Inr (error_text e), s1))"

definition customer_answer :: "response \<times> router \<Rightarrow> (exn + ustr) \<times> router" where
  "customer_answer r =
     (case r of
        (Success ag p, s1) \<Rightarrow>
          (case customer_of ''name'' p of
             Inl e \<Rightarrow> (Inl e, s1)
           | Inr c \<Rightarrow> (Inr (customer_information c), s1))
      | (Failure ag e, s1) \<Rightarrow> (Inr (error_text e), s1))"

definition field_answer :: "string \<Rightarrow> int \<Rightarrow> customer \<Rightarrow> ustr" where
  "field_answer query_lower cid c =
     (if str_in ''name'' query_lower \<and> \<not> str_in ''email'' query_lower
      then uni ''The name of customer '' @ num cid @ uni '' is '' @ uni (cust_name c) @ uni ''.''
      else if str_in ''email'' query_lower
      then uni ''The email of customer '' @ num cid @ uni '' is '' @ uni (cust_email c) @ uni ''.''
      else if str_in ''phone'' query_lower
      then uni ''The phone of customer '' @ num cid @ uni '' is '' @ uni (cust_phone c) @ uni ''.''
      else if str_in ''status'' query_lower
      then uni ''Customer '' @ num cid @ uni '' status is '' @ uni (cust_status c) @ uni ''.''
      else customer_information c)"

definition handle_simple_query :: "string \<Rightarrow> analysis \<Rightarrow> router \<Rightarrow> (exn + ustr) \<times> router" where
  "handle_simple_query q a s =
     (let s0 = log ''Handling simple query'' ''INFO'' s;
          query_lower = lower q
      in if has_id a \<and> any_in [''what is'', ''what's''] query_lower \<and>
            any_in [''name'', ''email'', ''phone'', ''status'', ''information'', ''info''] query_lower
         then
           (case route_to_data_agent ''get_customer'' (with_id (cid_of a)) s0 of
              (Success ag p, s1) \<Rightarrow>
                (case customer_of (if str_in ''name'' query_lower \<and> \<not> str_in ''email'' query_lower
                                   then ''name''
                                   else if str_in ''email'' query_lower then ''email''
                                   else if str_in ''phone'' query_lower then ''phone''
                                   else if str_in ''status'' query_lower then ''status''
                                   else ''name'') p of
                   Inl e \<Rightarrow> (Inl e, s1)
                 | Inr c \<Rightarrow> (Inr (field_answer query_lower (cid_of a) c), s1))
            | (Failure ag e, s1) \<Rightarrow> (Inr (error_text e), s1))
         else if any_in [''get customer'', ''show me customer'', ''customer information''] query_lower \<and>
                 has_id a
         then customer_answer (route_to_data_agent ''get_customer'' (with_id (cid_of a)) s0)
         else if (str_in ''history'' query_lower \<or> str_in ''tickets'' query_lower) \<and> has_id a
         then history_answer (cid_of a) (route_to_data_agent ''get_history'' (with_id (cid_of a)) s0)
         else
           (case route_to_support_agent ''handle_query'' (no_params\<lparr>p_query := Some q\<rparr>) s0 of
              (Success ag p, s1) \<Rightarrow>
                (case solution_get ''I'm here to help!'' p of
                   Inl e \<Rightarrow> (Inl e, s1)
                 | Inr t \<Rightarrow> (Inr (uni t), s1))
            | (Failure ag e, s1) \<Rightarrow> (Inr (error_text e), s1)))"

subsection \<open>Negotiation\<close>

record coordinated =
  c_query :: string
  r_support :: "response option"
  r_data :: "response option"
  r_support_with_context :: "response option"
  final_answer :: string

definition negotiate_between_agents ::
  "string \<Rightarrow> analysis \<Rightarrow> router \<Rightarrow> (exn + coordinated) \<times> router" where
  "negotiate_between_agents q a s =
     (let s0 = log ''Starting agent negotiation for complex query'' ''INFO'' s;
          c0 = \<lparr>c_query = q, r_support = None, r_data = None, r_support_with_context = None,
                final_answer = []\<rparr>
      in if needs_support_agent a then
           (let s1 = log_a2a_communication router_name support_agent_name
                       (Text ''Can you handle this query?'') s0
            in case route_to_support_agent ''handle_query'' (no_params\<lparr>p_query := Some q\<rparr>) s1 of
                 (support_response, s2) \<Rightarrow>
                   (let c1 = c0\<lparr>r_support := Some support_response\<rparr>
                    in case support_response of
                         Failure ag e \<Rightarrow> (Inr c1, s2)
                       | Success ag p \<Rightarrow>
                           (case needs_context_get p of
                              Inl e \<Rightarrow> (Inl e, s2)
                            | Inr False \<Rightarrow> (Inr c1, s2)
                            | Inr True \<Rightarrow>
                                (let s3 = log ''Support Agent needs customer context, requesting from Data Agent''
                                            ''INFO'' s2
                                 in if has_id a then
                                      (case route_to_data_agent ''get_customer'' (with_id (cid_of a)) s3 of
                                         (data_response, s4) \<Rightarrow>
                                           (let c2 = c1\<lparr>r_data := Some data_response\<rparr>
                                            in case data_response of
                                                 Failure ag' e' \<Rightarrow> (Inr c2, s4)
                                               | Success ag' p' \<Rightarrow>
                                                   (let s5 = log ''Providing customer context to Support Agent''
                                                               ''INFO'' s4
                                                    in case route_to_support_agent ''handle_query''
                                                              (no_params\<lparr>p_query := Some q,
                                                                 p_customer_data := customer_data_of p'\<rparr>) s5 of
                                                         (with_context, s6) \<Rightarrow>
                                                           (Inr (c2\<lparr>r_support_with_context := Some with_context\<rparr>),
                                                            s6))))
                                    else (Inr c1, s3)))))
         else (Inr c0, s0))"

text \<open>The synthesis at the end of the complex strategy.\<close>

definition data_part :: "coordinated \<Rightarrow> exn + ustr list" where
  "data_part c =
     (case r_data c of
        Some (Success ag p) \<Rightarrow>
          (case customer_of ''name'' p of
             Inl e \<Rightarrow> Inl e
           | Inr cu \<Rightarrow> Inr [uni ''Customer: '' @ uni (cust_name cu) @ uni '' ('' @
                             uni (cust_status cu) @ uni '')''])
      | _ \<Rightarrow> Inr [])"

definition support_part :: "coordinated \<Rightarrow> exn + ustr list" where
  "support_part c =
     (case (case r_support_with_context c of Some r \<Rightarrow> Some r | None \<Rightarrow> r_support c) of
        None \<Rightarrow> Inr []
      | Some r \<Rightarrow>
          (case result r of
             Inl e \<Rightarrow> Inl e
           | Inr p \<Rightarrow> (case solution_get [] p of Inl e \<Rightarrow> Inl e | Inr t \<Rightarrow> Inr [uni t])))"

definition synthesize :: "coordinated \<Rightarrow> exn + ustr" where
  "synthesize c =
     (case data_part c of
        Inl e \<Rightarrow> Inl e
      | Inr ps1 \<Rightarrow>
          (case support_part c of
             Inl e \<Rightarrow> Inl e
           | Inr ps2 \<Rightarrow>
               Inr (if ps1 @ ps2 \<noteq> [] then join nl (ps1 @ ps2)
                    else uni ''I'm working on your request.'')))"

definition handle_complex_query :: "string \<Rightarrow> analysis \<Rightarrow> router \<Rightarrow> (exn + ustr) \<times> router" where
  "handle_complex_query q a s =
     (let s0 = log ''Handling complex query with agent coordination'' ''INFO'' s;
          query_lower = lower q
      in if (str_in ''ticket'' query_lower \<or> str_in ''history'' query_lower) \<and> has_id a
         then history_answer (cid_of a) (route_to_data_agent ''get_history'' (with_id (cid_of a)) s0)
         else if str_in ''list'' query_lower \<and> str_in ''customer'' query_lower
         then
           (let status = (if str_in ''active'' query_lower then Some ''active''
                          else if str_in ''disabled'' query_lower then Some ''disabled''
                          else None)
            in case route_to_data_agent ''list_customers''
                      (no_params\<lparr>p_status := status, p_limit := Some 10\<rparr>) s0 of
                 (Success ag p, s1) \<Rightarrow>
                   (case customers_of p of
                      Inl e \<Rightarrow> (Inl e, s1)
                    | Inr cs \<Rightarrow> (Inr (customer_list_text cs), s1))
               | (Failure ag e, s1) \<Rightarrow> (Inr (error_text e), s1))
         else if str_in ''show'' query_lower \<and> str_in ''customer'' query_lower \<and> has_id a
         then customer_answer (route_to_data_agent ''get_customer'' (with_id (cid_of a)) s0)
         else
           (case negotiate_between_agents q a s0 of
              (Inl e, s1) \<Rightarrow> (Inl e, s1)
            | (Inr c, s1) \<Rightarrow> (synthesize c, s1)))"

subsection \<open>The multi-step strategy\<close>

text \<open>
  The two patterns searched in the query as it was typed:
  \<^verbatim>\<open>[\w\.-]+@[\w\.-]+\.\w+\<close> and \<^verbatim>\<open>\d{3}-?\d{4}\<close>.
\<close>

definition is_email_char :: "char \<Rightarrow> bool" where
  "is_email_char c = (is_word c \<or> c = CHR ''.'' \<or> c = CHR ''-'')"

definition pat_email :: "item list" where
  "pat_email =
     [(is_email_char, Plus), ((\<lambda>c. c = CHR ''@''), One), (is_email_char, Plus),
      ((\<lambda>c. c = CHR ''.''), One), (is_word, Plus)]"

definition pat_phone :: "item list" where
  "pat_phone =
     [(is_digit, One), (is_digit, One), (is_digit, One), ((\<lambda>c. c = CHR ''-''), Opt),
      (is_digit, One), (is_digit, One), (is_digit, One), (is_digit, One)]"

definition search :: "item list \<Rightarrow> string \<Rightarrow> string option" where
  "search pat s = scan (\<lambda>prev. whole_match pat) None s"

text \<open>
  The walk over the first customers, one \<^verbatim>\<open>get_history\<close> each. A failed answer is passed
  over. The analytical case keeps the tickets of the asked priority with the name of their
  customer; the other case keeps the customers that have open tickets, with their number.
\<close>

fun collect_tickets ::
  "string option \<Rightarrow> customer list \<Rightarrow> router \<Rightarrow> (exn + (string \<times> ticket) list) \<times> router" where
  "collect_tickets priority_filter [] s = (Inr [], s)"
| "collect_tickets priority_filter (c # cs) s =
     (case route_to_data_agent ''get_history'' (with_id (cust_id c)) s of
        (Failure ag e, s1) \<Rightarrow> collect_tickets priority_filter cs s1
      | (Success ag p, s1) \<Rightarrow>
          (case tickets_of p of
             Inl e \<Rightarrow> (Inl e, s1)
           | Inr ts \<Rightarrow>
               (case collect_tickets priority_filter cs s1 of
                  (Inl e, s2) \<Rightarrow> (Inl e, s2)
                | (Inr rest, s2) \<Rightarrow>
                    (Inr (map (Pair (cust_name c))
                            (filter (\<lambda>t. priority_filter = None \<or>
                                          Some (t_priority t) = priority_filter) ts) @ rest),
                     s2))))"

fun collect_open ::
  "customer list \<Rightarrow> router \<Rightarrow> (exn + (customer \<times> nat) list) \<times> router" where
  "collect_open [] s = (Inr [], s)"
| "collect_open (c # cs) s =
     (case route_to_data_agent ''get_history'' (with_id (cust_id c)) s of
        (Failure ag e, s1) \<Rightarrow> collect_open cs s1
      | (Success ag p, s1) \<Rightarrow>
          (case tickets_of p of
             Inl e \<Rightarrow> (Inl e, s1)
           | Inr ts \<Rightarrow>
               (case collect_open cs s1 of
                  (Inl e, s2) \<Rightarrow> (Inl e, s2)
                | (Inr rest, s2) \<Rightarrow>
                    (let open_tickets = filter (\<lambda>t. t_status t = ''open'') ts
                     in (Inr ((if open_tickets \<noteq> [] then [(c, length open_tickets)] else []) @ rest),
                         s2)))))"

text \<open>Each case gives the lines of the answer.\<close>

definition found_lines :: "string \<times> ticket \<Rightarrow> ustr list" where
  "found_lines nt =
     [uni ''  '' @ [bullet] @ uni '' '' @ uni (fst nt) @ uni '': ['' @ upper (t_status (snd nt)) @
      uni ''] '' @ uni (t_issue (snd nt)),
      uni ''    Priority: '' @ uni (t_priority (snd nt))]"

definition case_analytical :: "string \<Rightarrow> router \<Rightarrow> (exn + ustr list) \<times> router" where
  "case_analytical query_lower s =
     (let s0 = log ''Analytical ticket query detected'' ''INFO'' s;
          priority_filter =
            (if str_in ''high'' query_lower \<and> str_in ''priority'' query_lower then Some ''high''
             else if str_in ''medium'' query_lower \<and> str_in ''priority'' query_lower then Some ''medium''
             else if str_in ''low'' query_lower \<and> str_in ''priority'' query_lower then Some ''low''
             else None);
          priority_desc = (case priority_filter of
                             None \<Rightarrow> []
                           | Some f \<Rightarrow> if f = [] then [] else uni f @ uni ''-priority '')
      in case route_to_data_agent ''get_premium_customers'' no_params s0 of
           (Failure ag e, s1) \<Rightarrow> (Inr [uni ''Unable to retrieve ticket data.''], s1)
         | (Success ag p, s1) \<Rightarrow>
             (case customers_of p of
                Inl e \<Rightarrow> (Inl e, s1)
              | Inr custs \<Rightarrow>
                  (case collect_tickets priority_filter (take 10 custs) s1 of
                     (Inl e, s2) \<Rightarrow> (Inl e, s2)
                   | (Inr filtered_tickets, s2) \<Rightarrow>
                       (if filtered_tickets \<noteq> []
                        then (Inr ((uni ''Found '' @ num (int (length filtered_tickets)) @ uni '' '' @
                                    priority_desc @ uni ''tickets:'' @ nl) #
                                   concat (map found_lines (take 10 filtered_tickets))), s2)
                        else (Inr [uni ''No '' @ priority_desc @ uni ''tickets found.''], s2)))))"

definition case_active_customers :: "router \<Rightarrow> (exn + ustr list) \<times> router" where
  "case_active_customers s =
     (let s0 = log ''Step 1: Getting active customers'' ''INFO'' s
      in case route_to_data_agent ''get_premium_customers'' no_params s0 of
           (Failure ag e, s1) \<Rightarrow> (Inr [], s1)
         | (Success ag p, s1) \<Rightarrow>
             (case customers_of p of
                Inl e \<Rightarrow> (Inl e, s1)
              | Inr custs \<Rightarrow>
                  (let line1 = uni ''Found '' @ num (int (length custs)) @ uni '' active customers'';
                       s2 = log ''Step 2: Getting tickets for customers'' ''INFO'' s1
                   in case collect_open (take 5 custs) s2 of
                        (Inl e, s3) \<Rightarrow> (Inl e, s3)
                      | (Inr customers_with_tickets, s3) \<Rightarrow>
                          (if customers_with_tickets \<noteq> []
                           then (Inr (line1 # (nl @ uni ''Active customers with open tickets:'') #
                                      map (\<lambda>(c, n). uni ''- '' @ uni (cust_name c) @ uni '': '' @
                                                     num (int n) @ uni '' open ticket(s)'')
                                          customers_with_tickets), s3)
                           else (Inr [line1, uni ''No active customers with open tickets found.''],
                                 s3)))))"

definition update_history_line :: "ticket \<Rightarrow> ustr" where
  "update_history_line t =
     uni ''  - ['' @ upper (t_status t) @ uni ''] '' @ uni (t_issue t) @ uni '' (Priority: '' @
     uni (t_priority t) @ uni '')''"

definition case_update_email ::
  "string \<Rightarrow> string \<Rightarrow> int \<Rightarrow> router \<Rightarrow> (exn + ustr list) \<times> router" where
  "case_update_email q query_lower cid s =
     (case search pat_email q of
        None \<Rightarrow> (Inr [uni ''Could not extract email address from query''], s)
      | Some new_email \<Rightarrow>
          (let s0 = log (''Step 1: Updating email for customer '' @ str_int cid) ''INFO'' s
           in case route_to_data_agent ''update_customer''
                     (no_params\<lparr>p_customer_id := Some cid,
                                 p_updates := Some [(''email'', new_email)]\<rparr>) s0 of
                (update_response, s1) \<Rightarrow>
                  (let line1 =
                         (case update_response of
                            Success ag p \<Rightarrow>
                              [check_mark] @ uni '' Email updated to '' @ uni new_email @
                              uni '' for customer '' @ num cid
                          | Failure ag e \<Rightarrow> uni ''Error updating email: '' @ uni e)
                   in if str_in ''history'' query_lower \<or> str_in ''ticket'' query_lower
                      then
                        (let s2 = log (''Step 2: Getting ticket history for customer '' @ str_int cid)
                                    ''INFO'' s1
                         in case route_to_data_agent ''get_history'' (with_id cid) s2 of
                              (Failure ag e, s3) \<Rightarrow> (Inr [line1, uni ''No tickets found''], s3)
                            | (Success ag p, s3) \<Rightarrow>
                                (case tickets_of p of
                                   Inl e \<Rightarrow> (Inl e, s3)
                                 | Inr ts \<Rightarrow>
                                     (Inr (line1 # (nl @ uni ''Ticket History:'') #
                                           map update_history_line ts), s3)))
                      else (Inr [line1], s1))))"

definition case_update_phone :: "string \<Rightarrow> int \<Rightarrow> router \<Rightarrow> (exn + ustr list) \<times> router" where
  "case_update_phone q cid s =
     (case search pat_phone q of
        None \<Rightarrow> (Inr [uni ''Could not extract phone number from query''], s)
      | Some new_phone \<Rightarrow>
          (let s0 = log (''Updating phone for customer '' @ str_int cid) ''INFO'' s
           in case route_to_data_agent ''update_customer''
                     (no_params\<lparr>p_customer_id := Some cid,
                                 p_updates := Some [(''phone'', new_phone)]\<rparr>) s0 of
                (Failure ag e, s1) \<Rightarrow> (Inr [uni ''Error updating phone: '' @ uni e], s1)
              | (Success ag p, s1) \<Rightarrow>
                  (case customer_of ''name'' p of
                     Inl e \<Rightarrow> (Inl e, s1)
                   | Inr c \<Rightarrow>
                       (Inr [[check_mark] @ uni '' Phone updated to '' @ uni new_phone @
                             uni '' for customer '' @ num cid,
                             nl @ uni ''Updated Customer Information:'',
                             uni ''  Name: '' @ uni (cust_name c),
                             uni ''  Email: '' @ uni (cust_email c),
                             uni ''  Phone: '' @ uni (cust_phone c)], s1))))"

definition case_change_email :: "string \<Rightarrow> int \<Rightarrow> router \<Rightarrow> (exn + ustr list) \<times> router" where
  "case_change_email q cid s =
     (case search pat_email q of
        None \<Rightarrow> (Inr [uni ''Could not extract email address from query''], s)
      | Some new_email \<Rightarrow>
          (let s0 = log (''Changing email for customer '' @ str_int cid) ''INFO'' s
           in case route_to_data_agent ''update_customer''
                     (no_params\<lparr>p_customer_id := Some cid,
                                 p_updates := Some [(''email'', new_email)]\<rparr>) s0 of
                (Failure ag e, s1) \<Rightarrow> (Inr [uni ''Error changing email: '' @ uni e], s1)
              | (Success ag p, s1) \<Rightarrow>
                  (case customer_of ''name'' p of
                     Inl e \<Rightarrow> (Inl e, s1)
                   | Inr c \<Rightarrow>
                       (Inr [[check_mark] @ uni '' Email changed to '' @ uni new_email @
                             uni '' for customer '' @ num cid,
                             nl @ uni ''Updated Customer Information:'',
                             uni ''  Name: '' @ uni (cust_name c),
                             uni ''  Email: '' @ uni (cust_email c)], s1))))"

definition multi_history_line :: "ticket \<Rightarrow> ustr" where
  "multi_history_line t =
     uni ''  - ['' @ upper (t_status t) @ uni ''] '' @ uni (t_issue t) @ uni '' (Priority: '' @
     uni (t_priority t) @ uni '', ID: '' @ num (t_id t) @ uni '')''"

definition case_ticket_history :: "int \<Rightarrow> router \<Rightarrow> (exn + ustr list) \<times> router" where
  "case_ticket_history cid s =
     (let s0 = log (''Getting ticket history for customer '' @ str_int cid) ''INFO'' s
      in case route_to_data_agent ''get_history'' (with_id cid) s0 of
           (Failure ag e, s1) \<Rightarrow> (Inr [error_text e], s1)
         | (Success ag p, s1) \<Rightarrow>
             (case tickets_of p of
                Inl e \<Rightarrow> (Inl e, s1)
              | Inr ts \<Rightarrow>
                  (if ts \<noteq> []
                   then (Inr ((uni ''Ticket History for Customer '' @ num cid @ uni '':'') #
                              map multi_history_line ts), s1)
                   else (Inr [uni ''No tickets found for customer '' @ num cid], s1))))"

definition case_help :: "string \<Rightarrow> int \<Rightarrow> router \<Rightarrow> (exn + ustr list) \<times> router" where
  "case_help q cid s =
     (case route_to_data_agent ''get_customer'' (with_id cid) s of
        (Failure ag e, s1) \<Rightarrow> (Inr [error_text e], s1)
      | (Success ag p, s1) \<Rightarrow>
          (case route_to_support_agent ''handle_query''
                  (no_params\<lparr>p_query := Some q, p_customer_data := customer_data_of p\<rparr>) s1 of
             (Failure ag' e', s2) \<Rightarrow>
               (Inr [uni ''I'm here to help. Please provide more details.''], s2)
           | (Success ag' p', s2) \<Rightarrow>
               (case customer_of ''name'' p of
                  Inl e \<Rightarrow> (Inl e, s2)
                | Inr c \<Rightarrow>
                    (case solution_of p' of
                       Inl e \<Rightarrow> (Inl e, s2)
                     | Inr solution \<Rightarrow>
                         (Inr [uni ''Hello '' @ uni (cust_name c) @ uni ''!'', uni solution], s2)))))"

definition handle_multi_step_query ::
  "string \<Rightarrow> analysis \<Rightarrow> router \<Rightarrow> (exn + ustr) \<times> router" where
  "handle_multi_step_query q a s =
     (let s0 = log ''Handling multi-step query'' ''INFO'' s;
          query_lower = lower q;
          lines =
            (if (str_in ''what is'' query_lower \<or> str_in ''status'' query_lower) \<and>
                str_in ''ticket'' query_lower \<and> str_in ''priority'' query_lower
             then case_analytical query_lower s0
             else if str_in ''active customers'' query_lower \<and> str_in ''tickets'' query_lower
             then case_active_customers s0
             else if str_in ''update'' query_lower \<and> str_in ''email'' query_lower \<and> has_id a
             then case_update_email q query_lower (cid_of a) s0
             else if str_in ''update'' query_lower \<and> str_in ''phone'' query_lower \<and> has_id a
             then case_update_phone q (cid_of a) s0
             else if (str_in ''change'' query_lower \<or> str_in ''update'' query_lower) \<and>
                     str_in ''email'' query_lower \<and> has_id a
             then case_change_email q (cid_of a) s0
             else if (str_in ''ticket'' query_lower \<or> str_in ''history'' query_lower) \<and> has_id a
             then case_ticket_history (cid_of a) s0
             else if has_id a \<and>
                     (str_in ''help'' query_lower \<or> str_in ''need'' query_lower \<or>
                      str_in ''having'' query_lower \<or> str_in ''here'' query_lower \<or>
                      str_in ''issue'' query_lower \<or> str_in ''problem'' query_lower)
             then case_help q (cid_of a) s0
             else (Inr [], s0))
      in case lines of
           (Inl e, s1) \<Rightarrow> (Inl e, s1)
         | (Inr results, s1) \<Rightarrow>
             (Inr (if results \<noteq> [] then join nl results else uni ''Query processed.''), s1))"

section \<open>The orchestrator: \<^verbatim>\<open>process_query\<close>\<close>

definition rule_line :: string where
  "rule_line = replicate 80 CHR ''=''"

definition process_query :: "string \<Rightarrow> router \<Rightarrow> (exn + ustr) \<times> router" where
  "process_query q s =
     (let s1 = log rule_line ''INFO'' s;
          s2 = log (''NEW QUERY: '' @ q) ''INFO'' s1;
          s3 = log rule_line ''INFO'' s2
      in case analyze_query q s3 of
           (Inl e, s4) \<Rightarrow> (Inl e, s4)
         | (Inr a, s4) \<Rightarrow>
             (case (if complexity a = Simple then handle_simple_query q a s4
                    else if complexity a = MultiStep then handle_multi_step_query q a s4
                    else handle_complex_query q a s4) of
                (Inl e, s5) \<Rightarrow> (Inl e, s5)
              | (Inr response, s5) \<Rightarrow>
                  (Inr response,
                   log rule_line ''INFO'' (log ''Query processing complete'' ''INFO'' s5))))"

text \<open>
  The dispatches a log records: the requests the orchestrator sent to a provider, in the
  order in which it sent them.
\<close>

fun dispatch_of :: "log_entry \<Rightarrow> (string \<times> string \<times> params) option" where
  "dispatch_of (A2AEntry from_a to_a (Outbound act ps)) = Some (to_a, act, ps)"
| "dispatch_of _ = None"

definition dispatches :: "log_entry list \<Rightarrow> (string \<times> string \<times> params) list" where
  "dispatches l = List.map_filter dispatch_of l"

section \<open>Notions for the statements\<close>

text \<open>
  A sequence of dispatches: each names the provider (\<open>True\<close> for the Data Service), the
  action and the parameters, and \<open>route\<close> runs one of them for its effect on the state.
\<close>

definition provider_name :: "bool \<Rightarrow> string" where
  "provider_name to_data = (if to_data then data_agent_name else support_agent_name)"

definition route :: "bool \<times> string \<times> params \<Rightarrow> router \<Rightarrow> router" where
  "route d s =
     (case d of
        (to_data, act, ps) \<Rightarrow>
          snd (if to_data then route_to_data_agent act ps s else route_to_support_agent act ps s))"

text \<open>
  \<open>paired ds l\<close>: the log \<open>l\<close> is made of one pair of entries for each dispatch of \<open>ds\<close>,
  in their order: the request from the orchestrator to the provider, then the summary of
  the answer from the provider to the orchestrator.
\<close>

fun paired :: "(bool \<times> string \<times> params) list \<Rightarrow> log_entry list \<Rightarrow> bool" where
  "paired [] l = (l = [])"
| "paired ((to_data, act, ps) # ds) (A2AEntry f t (Outbound a p) # A2AEntry f' t' (Text m) # l) =
     (f = router_name \<and> t = provider_name to_data \<and> a = act \<and> p = ps \<and>
      f' = provider_name to_data \<and> t' = router_name \<and>
      (m = ''Response: Success'' \<or> m = ''Response: Failed'') \<and> paired ds l)"
| "paired (d # ds) l = False"

text \<open>\<open>on_db f d\<close> runs \<open>f\<close> on the store \<open>d\<close> with an empty log.\<close>

definition on_db :: "(router \<Rightarrow> 'a \<times> router) \<Rightarrow> database \<Rightarrow> 'a \<times> router" where
  "on_db f d = f \<lparr>db = d, coordination_log = []\<rparr>"

section \<open>A sample provider state\<close>

definition bob :: customer where
  "bob = \<lparr>cust_id = 2, cust_name = ''Bob Stone'', cust_email = ''bob@example.com'',
          cust_phone = ''555-0102'', cust_status = ''active'',
          cust_created_at = ''2026-01-02 10:00:00'', cust_updated_at = ''2026-01-02 10:00:00''\<rparr>"

definition eve :: customer where
  "eve = \<lparr>cust_id = 5, cust_name = ''Eve Park'', cust_email = ''eve@example.com'',
          cust_phone = ''555-0105'', cust_status = ''disabled'',
          cust_created_at = ''2026-01-05 10:00:00'', cust_updated_at = ''2026-01-05 10:00:00''\<rparr>"

definition sample_db :: database where
  "sample_db =
     \<lparr>customers = [bob, eve],
      tickets =
        [\<lparr>t_id = 1, t_customer_id = 2, t_issue = ''Cannot log in'', t_status = ''open'',
          t_priority = ''high'', t_created_at = ''2026-02-01 09:00:00''\<rparr>],
      now = ''2026-03-01T12:00:00''\<rparr>"

definition sample_router :: router where
  "sample_router = \<lparr>db = sample_db, coordination_log = []\<rparr>"

section \<open>Identifiers too long for \<^verbatim>\<open>int\<close>\<close>

text \<open>
  A run of 4301 digits after \<^verbatim>\<open>id\<close> is captured whole by the second pattern, and its
  conversion raises. The lemmas below evaluate the search on a text that ends in such a run.
\<close>

lemma scan_replicate_None:
  assumes "\<And>k p. m p (replicate k c) = None"
  shows "scan m prev (replicate n c) = None"
proof (induction n arbitrary: prev)
  case 0
  from assms[of prev 0] show ?case by simp
next
  case (Suc n)
  from assms[of prev "Suc n"] Suc show ?case by simp
qed








section \<open>Properties of the classifier\<close>







text \<open>
  C10. Every analysis that \<^verbatim>\<open>analyze_query\<close> produces has \<open>needs_coordination\<close> set exactly
  when its tier is not simple.
\<close>

theorem needs_coordination_iff_not_simple:
  assumes "fst (analyze_query q s) = Inr a"
  shows "needs_coordination a \<longleftrightarrow> complexity a \<noteq> Simple"
proof -
  have c: "needs_coordination (classify q cid) \<longleftrightarrow> complexity (classify q cid) \<noteq> Simple" for cid
    by (simp add: classify_def Let_def)
  from assms obtain cid where "a = classify q cid"
    by (auto simp: analyze_query_def Let_def split: sum.splits)
  with c show ?thesis by simp
qed

theorem needs_coordination_iff_not_simple_witness:
  "fst (analyze_query ''xyzzy'' sample_router) = Inr (classify ''xyzzy'' None)
   \<and> \<not> needs_coordination (classify ''xyzzy'' None)
   \<and> complexity (classify ''xyzzy'' None) = Simple
   \<and> fst (analyze_query ''list everything'' sample_router) = Inr (classify ''list everything'' None)
   \<and> needs_coordination (classify ''list everything'' None)
   \<and> complexity (classify ''list everything'' None) = Complex"
proof -
  have a: "fst (analyze_query ''xyzzy'' sample_router) = Inr (classify ''xyzzy'' None)"
    by code_simp
  have a': "complexity (classify ''xyzzy'' None) = Simple"
    by code_simp
  have b: "fst (analyze_query ''list everything'' sample_router)
           = Inr (classify ''list everything'' None)"
    by code_simp
  have b': "complexity (classify ''list everything'' None) = Complex"
    by code_simp
  from needs_coordination_iff_not_simple [OF a] needs_coordination_iff_not_simple [OF b] a a' b b'
  show ?thesis by simp
qed

section \<open>The identifier patterns\<close>


















lemma no_pat_customer_in_ones:
  "scan (\<lambda>prev. group_digits pat_customer) p (replicate n CHR ''1'') = None"
proof (rule scan_replicate_None)
  fix k p show "group_digits pat_customer (replicate k CHR ''1'') = None"
    by (cases k) (simp_all add: group_digits_def pat_customer_def lit_def)
qed





section \<open>What a dispatch does to the state\<close>

lemma customer_id_classify: "customer_id (classify q cid) = cid"
  by (simp add: classify_def Let_def)

lemma route_to_data_agent_get_customer:
  assumes "find (\<lambda>c. cust_id c = cid) (customers (db s)) = Some c" and "fits_sqlite cid"
  shows "route_to_data_agent ''get_customer'' (with_id cid) s =
           (Success data_agent_name (RCustomer c),
            s\<lparr>coordination_log := coordination_log s @
                 [A2AEntry router_name data_agent_name (Outbound ''get_customer'' (with_id cid)),
                  A2AEntry data_agent_name router_name (Text ''Response: Success'')]\<rparr>)"
  using assms
  by (simp add: route_to_data_agent_def log_a2a_communication_def data_handle_request_def
        with_id_def no_params_def get_customer_info_def call_tool_def get_customer_def
        db_get_customer_def respond_def to_tool_result_def of_tool_result_def Let_def)

lemma route_to_support_agent_handle_query:
  assumes "p_query ps = Some q"
  shows "route_to_support_agent ''handle_query'' ps s =
           (Success support_agent_name (RSupport (handle_support_query q (p_customer_data ps))),
            s\<lparr>coordination_log := coordination_log s @
                 [A2AEntry router_name support_agent_name (Outbound ''handle_query'' ps),
                  A2AEntry support_agent_name router_name (Text ''Response: Success'')]\<rparr>)"
  using assms
  by (simp add: route_to_support_agent_def log_a2a_communication_def support_handle_request_def
        Let_def)

lemma dispatches_append: "dispatches (xs @ ys) = dispatches xs @ dispatches ys"
  by (induction xs) (simp_all add: dispatches_def map_filter_simps split: option.splits)

lemma dispatches_LogEntry [simp]: "dispatches (LogEntry a b c # l) = dispatches l"
  by (simp add: dispatches_def map_filter_simps)

lemma dispatches_Nil [simp]: "dispatches [] = []"
  by (simp add: dispatches_def map_filter_simps)

lemma dispatches_Outbound [simp]:
  "dispatches (A2AEntry a b (Outbound act ps) # l) = (b, act, ps) # dispatches l"
  by (simp add: dispatches_def map_filter_simps)

lemma dispatches_Text [simp]: "dispatches (A2AEntry a b (Text t) # l) = dispatches l"
  by (simp add: dispatches_def map_filter_simps)

lemma str_in_middle: "str_in sub (a @ sub @ b)"
proof (induction a)
  case Nil
  have "prefix sub (sub @ b)" by simp
  then show ?case by (cases "sub @ b") auto
next
  case (Cons x a)
  then show ?case by simp
qed

lemma customer_information_contains:
  "str_in (uni (cust_name c)) (customer_information c)"
  "str_in (uni (cust_email c)) (customer_information c)"
  "str_in (uni (cust_phone c)) (customer_information c)"
  "str_in (uni (cust_status c)) (customer_information c)"
proof -
  show "str_in (uni (cust_name c)) (customer_information c)"
    using str_in_middle[of "uni (cust_name c)" "uni ''Customer Information:'' @ nl @ uni ''Name: ''"]
    by (simp add: customer_information_def)
  show "str_in (uni (cust_email c)) (customer_information c)"
    using str_in_middle[of "uni (cust_email c)"
            "uni ''Customer Information:'' @ nl @ uni ''Name: '' @ uni (cust_name c) @ nl @ uni ''Email: ''"]
    by (simp add: customer_information_def)
  show "str_in (uni (cust_phone c)) (customer_information c)"
    using str_in_middle[of "uni (cust_phone c)"
            "uni ''Customer Information:'' @ nl @ uni ''Name: '' @ uni (cust_name c) @ nl @ uni ''Email: '' @
             uni (cust_email c) @ nl @ uni ''Phone: ''"]
    by (simp add: customer_information_def)
  show "str_in (uni (cust_status c)) (customer_information c)"
    using str_in_middle[of "uni (cust_status c)"
            "uni ''Customer Information:'' @ nl @ uni ''Name: '' @ uni (cust_name c) @ nl @ uni ''Email: '' @
             uni (cust_email c) @ nl @ uni ''Phone: '' @ uni (cust_phone c) @ nl @ uni ''Status: ''" "[]"]
    by (simp add: customer_information_def)
qed


lemma fits_sqlite_small: "fits_sqlite 5" "fits_sqlite 2"
  by (simp_all add: fits_sqlite_def)




section \<open>Properties of \<^verbatim>\<open>process_query\<close>\<close>




text \<open>
  C6. When the store has a customer with identifier 5, \<^verbatim>\<open>process_query\<close> on
  \<^verbatim>\<open>Get customer information for ID 5\<close> issues one dispatch and no other,
  \<^verbatim>\<open>get_customer\<close> with \<^verbatim>\<open>customer_id\<close> 5 to the Data Service, and the text it returns
  contains the name, the email, the phone and the status of that customer.
\<close>

lemma q6_facts:
  "extract_customer_id ''Get customer information for ID 5'' = Inr (Some 5)"
  "complexity (classify ''Get customer information for ID 5'' (Some 5)) = Simple"
  "\<not> any_in [''what is'', ''what's''] (lower ''Get customer information for ID 5'')"
  "any_in [''get customer'', ''show me customer'', ''customer information''] (lower ''Get customer information for ID 5'')"
  by code_simp+

theorem get_customer_information_for_id_5:
  assumes "find (\<lambda>c. cust_id c = 5) (customers (db s)) = Some c"
  shows "dispatches (drop (length (coordination_log s))
           (coordination_log (snd (process_query ''Get customer information for ID 5'' s))))
           = [(data_agent_name, ''get_customer'', no_params\<lparr>p_customer_id := Some 5\<rparr>)]
       \<and> fst (process_query ''Get customer information for ID 5'' s) = Inr (customer_information c)
       \<and> str_in (uni (cust_name c)) (customer_information c)
       \<and> str_in (uni (cust_email c)) (customer_information c)
       \<and> str_in (uni (cust_phone c)) (customer_information c)
       \<and> str_in (uni (cust_status c)) (customer_information c)"
proof -
  let ?q = "''Get customer information for ID 5''"
  have h: "has_id (classify ?q (Some 5))" "cid_of (classify ?q (Some 5)) = 5"
    by (simp_all add: has_id_def cid_of_def customer_id_classify)
  have r: "handle_simple_query ?q (classify ?q (Some 5)) s' =
             customer_answer (route_to_data_agent ''get_customer'' (with_id 5)
                (log ''Handling simple query'' ''INFO'' s'))" for s'
    using h q6_facts(3,4) by (simp add: handle_simple_query_def Let_def)
  have p: "dispatches (drop (length (coordination_log s)) (coordination_log (snd (process_query ?q s))))
             = [(data_agent_name, ''get_customer'', with_id 5)]
           \<and> fst (process_query ?q s) = Inr (customer_information c)"
    using assms
    by (simp add: process_query_def analyze_query_def q6_facts(1,2) r customer_answer_def
          route_to_data_agent_get_customer fits_sqlite_small log_def Let_def)
  from p customer_information_contains[of c] show ?thesis
    by (simp add: with_id_def)
qed

theorem get_customer_information_for_id_5_witness:
  "find (\<lambda>c. cust_id c = 5) (customers (db sample_router)) = Some eve
   \<and> dispatches (drop (length (coordination_log sample_router))
        (coordination_log (snd (process_query ''Get customer information for ID 5'' sample_router))))
       = [(data_agent_name, ''get_customer'', no_params\<lparr>p_customer_id := Some 5\<rparr>)]
   \<and> fst (process_query ''Get customer information for ID 5'' sample_router) = Inr (customer_information eve)
   \<and> str_in (uni ''Eve Park'') (customer_information eve)
   \<and> str_in (uni ''eve@example.com'') (customer_information eve)
   \<and> str_in (uni ''555-0105'') (customer_information eve)
   \<and> str_in (uni ''disabled'') (customer_information eve)"
proof -
  have f: "find (\<lambda>c. cust_id c = 5) (customers (db sample_router)) = Some eve"
    by (simp add: sample_router_def sample_db_def bob_def eve_def)
  from get_customer_information_for_id_5[OF f] f show ?thesis
    by (simp add: eve_def)
qed

text \<open>
  C7. When the store has a customer with identifier 2, \<^verbatim>\<open>process_query\<close> on
  \<^verbatim>\<open>I'm customer 2 and having login issues\<close> issues two dispatches: first
  \<^verbatim>\<open>get_customer\<close> to the Data Service, then \<^verbatim>\<open>handle_query\<close> to the Support Service,
  whose \<^verbatim>\<open>customer_data\<close> is the record the first one fetched.
\<close>

lemma q7_facts:
  "extract_customer_id ''I'm customer 2 and having login issues'' = Inr (Some 2)"
  "complexity (classify ''I'm customer 2 and having login issues'' (Some 2)) = MultiStep"
  "\<not> str_in ''ticket'' (lower ''I'm customer 2 and having login issues'')"
  "\<not> str_in ''tickets'' (lower ''I'm customer 2 and having login issues'')"
  "\<not> str_in ''update'' (lower ''I'm customer 2 and having login issues'')"
  "\<not> str_in ''change'' (lower ''I'm customer 2 and having login issues'')"
  "\<not> str_in ''history'' (lower ''I'm customer 2 and having login issues'')"
  "str_in ''having'' (lower ''I'm customer 2 and having login issues'')"
  by code_simp+

theorem customer_2_login_issues_data_before_support:
  assumes "find (\<lambda>c. cust_id c = 2) (customers (db s)) = Some c"
  shows "dispatches (drop (length (coordination_log s))
           (coordination_log (snd (process_query ''I'm customer 2 and having login issues'' s))))
           = [(data_agent_name, ''get_customer'', no_params\<lparr>p_customer_id := Some 2\<rparr>),
              (support_agent_name, ''handle_query'',
               no_params\<lparr>p_query := Some ''I'm customer 2 and having login issues'', p_customer_data := Some c\<rparr>)]
       \<and> fst (process_query ''I'm customer 2 and having login issues'' s)
           = Inr (join nl [uni ''Hello '' @ uni (cust_name c) @ uni ''!'',
                           uni (sr_solution (handle_support_query ''I'm customer 2 and having login issues'' (Some c)))])"
proof -
  let ?q = "''I'm customer 2 and having login issues''"
  have h: "has_id (classify ?q (Some 2))" "cid_of (classify ?q (Some 2)) = 2"
    by (simp_all add: has_id_def cid_of_def customer_id_classify)
  have r: "handle_multi_step_query ?q (classify ?q (Some 2)) s' =
             (case case_help ?q 2 (log ''Handling multi-step query'' ''INFO'' s') of
                (Inl e, s1) \<Rightarrow> (Inl e, s1)
              | (Inr results, s1) \<Rightarrow>
                  (Inr (if results \<noteq> [] then join nl results else uni ''Query processed.''), s1))" for s'
    using h q7_facts(3-8) by (simp add: handle_multi_step_query_def Let_def)
  have k: "case_help ?q 2 s' =
             (Inr [uni ''Hello '' @ uni (cust_name c) @ uni ''!'',
                   uni (sr_solution (handle_support_query ?q (Some c)))],
              s'\<lparr>coordination_log := coordination_log s' @
                 [A2AEntry router_name data_agent_name (Outbound ''get_customer'' (with_id 2)),
                  A2AEntry data_agent_name router_name (Text ''Response: Success''),
                  A2AEntry router_name support_agent_name
                    (Outbound ''handle_query'' (no_params\<lparr>p_query := Some ?q, p_customer_data := Some c\<rparr>)),
                  A2AEntry support_agent_name router_name (Text ''Response: Success'')]\<rparr>)"
    if "find (\<lambda>c. cust_id c = 2) (customers (db s')) = Some c" for s'
    using that
    by (simp add: case_help_def route_to_data_agent_get_customer fits_sqlite_small
          route_to_support_agent_handle_query[where q = ?q] no_params_def)
  show ?thesis
    using assms
    by (simp add: process_query_def analyze_query_def q7_facts(1,2) r k log_def Let_def with_id_def)
qed

theorem customer_2_login_issues_data_before_support_witness:
  "find (\<lambda>c. cust_id c = 2) (customers (db sample_router)) = Some bob
   \<and> dispatches (drop (length (coordination_log sample_router))
        (coordination_log (snd (process_query ''I'm customer 2 and having login issues'' sample_router))))
       = [(data_agent_name, ''get_customer'', no_params\<lparr>p_customer_id := Some 2\<rparr>),
          (support_agent_name, ''handle_query'',
           no_params\<lparr>p_query := Some ''I'm customer 2 and having login issues'', p_customer_data := Some bob\<rparr>)]
   \<and> fst (process_query ''I'm customer 2 and having login issues'' sample_router)
       = Inr (join nl [uni ''Hello '' @ uni (cust_name bob) @ uni ''!'',
                       uni (sr_solution (handle_support_query ''I'm customer 2 and having login issues'' (Some bob)))])
   \<and> sr_solution (handle_support_query ''I'm customer 2 and having login issues'' (Some bob))
       = ''I can assist you with your account. Let me pull up your information.''"
proof -
  have f: "find (\<lambda>c. cust_id c = 2) (customers (db sample_router)) = Some bob"
    by (simp add: sample_router_def sample_db_def bob_def eve_def)
  have v: "sr_solution (handle_support_query ''I'm customer 2 and having login issues'' (Some bob))
             = ''I can assist you with your account. Let me pull up your information.''"
    by code_simp
  from customer_2_login_issues_data_before_support[OF f] f v show ?thesis
    by blast
qed

section \<open>The coordination log\<close>

lemma route_to_data_agent_log:
  "coordination_log (snd (route_to_data_agent act ps s)) =
     coordination_log s @
       [A2AEntry router_name data_agent_name (Outbound act ps),
        A2AEntry data_agent_name router_name
          (Text (''Response: '' @ (if success (fst (route_to_data_agent act ps s)) then ''Success'' else ''Failed'')))]"
  by (simp add: route_to_data_agent_def log_a2a_communication_def Let_def split_beta)

lemma route_to_support_agent_log:
  "coordination_log (snd (route_to_support_agent act ps s)) =
     coordination_log s @
       [A2AEntry router_name support_agent_name (Outbound act ps),
        A2AEntry support_agent_name router_name
          (Text (''Response: '' @ (if success (fst (route_to_support_agent act ps s)) then ''Success'' else ''Failed'')))]"
  by (simp add: route_to_support_agent_def log_a2a_communication_def Let_def split_beta)

lemma route_log:
  "\<exists>m. (m = ''Response: Success'' \<or> m = ''Response: Failed'') \<and>
       coordination_log (route (to_data, act, ps) s) =
         coordination_log s @
           [A2AEntry router_name (provider_name to_data) (Outbound act ps),
            A2AEntry (provider_name to_data) router_name (Text m)]"
  by (simp add: route_def provider_name_def route_to_data_agent_log route_to_support_agent_log)

lemma fold_route_paired:
  "\<exists>l. coordination_log (fold route ds s) = coordination_log s @ l \<and> paired ds l"
proof (induction ds arbitrary: s)
  case Nil
  show ?case by simp
next
  case (Cons d ds)
  obtain to_data act ps where d: "d = (to_data, act, ps)" by (cases d)
  from route_log[of to_data act ps s] obtain m where
    m: "m = ''Response: Success'' \<or> m = ''Response: Failed''"
    and l: "coordination_log (route d s) =
         coordination_log s @
           [A2AEntry router_name (provider_name to_data) (Outbound act ps),
            A2AEntry (provider_name to_data) router_name (Text m)]"
    unfolding d by blast
  from Cons.IH[of "route d s"] obtain l' where
    l': "coordination_log (fold route ds (route d s)) = coordination_log (route d s) @ l'"
    and p: "paired ds l'" by blast
  show ?case
  proof (intro exI conjI)
    show "coordination_log (fold route (d # ds) s) =
            coordination_log s @
              (A2AEntry router_name (provider_name to_data) (Outbound act ps) #
               A2AEntry (provider_name to_data) router_name (Text m) # l')"
      using l l' by simp
    show "paired (d # ds)
            (A2AEntry router_name (provider_name to_data) (Outbound act ps) #
             A2AEntry (provider_name to_data) router_name (Text m) # l')"
      using m p unfolding d by simp
  qed
qed

lemma paired_length: "paired ds l \<Longrightarrow> length l = 2 * length ds"
  by (induction ds l rule: paired.induct) simp_all

text \<open>
  C8. Whatever the dispatches \<open>ds\<close> and the state they start from, the log after them
  is the log before them followed by one request entry and one answer entry for each
  dispatch, in the order of the dispatches; so it has at least twice as many entries as there
  were dispatches, and exactly that many from a cleared log. Clearing empties the log from
  any state.
\<close>

theorem trace_two_entries_per_dispatch:
  "paired ds (drop (length (get_coordination_log s)) (get_coordination_log (fold route ds s)))
   \<and> prefix (get_coordination_log s) (get_coordination_log (fold route ds s))
   \<and> length (get_coordination_log (fold route ds s)) = length (get_coordination_log s) + 2 * length ds
   \<and> 2 * length ds \<le> length (get_coordination_log (fold route ds s))
   \<and> paired ds (get_coordination_log (fold route ds (clear_coordination_log s)))
   \<and> get_coordination_log (clear_coordination_log s) = []"
proof -
  from fold_route_paired[of ds s] obtain l where
    l: "coordination_log (fold route ds s) = coordination_log s @ l" and p: "paired ds l" by blast
  from fold_route_paired[of ds "clear_coordination_log s"] obtain l' where
    l': "coordination_log (fold route ds (clear_coordination_log s)) = l'" and p': "paired ds l'"
    by (auto simp: clear_coordination_log_def)
  from l p l' p' paired_length[OF p] show ?thesis
    by (simp add: get_coordination_log_def clear_coordination_log_def)
qed


end
